theory Spec2Isabelle
  imports Main "HOL-Library.Sublist" "HOL-Library.AList"
begin

section \<open>The environment of the backup script\<close>

text \<open>
  The script \<^verbatim>\<open>main.py\<close> is a sequence of calls into the operating system. The model
  makes the operating system explicit: a directory tree, the answers of the two external
  commands, the environment variables and the wall clock are inputs, and every function
  of the script takes the state of the world and returns the new one together with its
  result or the exception it raises.
\<close>

subsection \<open>Paths and the directory tree\<close>

text \<open>
  A path is the list of its components from the root (a \<^verbatim>\<open>pathlib.Path\<close> after parsing);
  \<^verbatim>\<open>p / "name"\<close> appends a component. A node of the tree is a file with its text or a
  directory with its entries; the first entry of a name is the one a lookup finds.
\<close>

type_synonym path = "string list"

datatype node = File string | Dir "(string \<times> node) list"

fun lookup :: "node \<Rightarrow> path \<Rightarrow> node option" where
  "lookup n [] = Some n"
| "lookup (File c) (x # xs) = None"
| "lookup (Dir es) (x # xs) = (case map_of es x of None \<Rightarrow> None | Some c \<Rightarrow> lookup c xs)"

definition exists_path :: "node \<Rightarrow> path \<Rightarrow> bool" where
  "exists_path t p = (case lookup t p of None \<Rightarrow> False | Some n \<Rightarrow> True)"

definition is_dir :: "node \<Rightarrow> path \<Rightarrow> bool" where
  "is_dir t p = (case lookup t p of Some (Dir es) \<Rightarrow> True | _ \<Rightarrow> False)"


text \<open>What \<^verbatim>\<open>stat\<close> sees at a path: nothing, a file with its text, or a directory.\<close>

datatype kind = KFile string | KDir

fun kind_of :: "node \<Rightarrow> kind" where
  "kind_of (File c) = KFile c"
| "kind_of (Dir es) = KDir"

definition stat :: "node \<Rightarrow> path \<Rightarrow> kind option" where
  "stat t p = map_option kind_of (lookup t p)"

text \<open>
  \<open>write_node p new t\<close> puts \<open>new\<close> at \<open>p\<close> when the parent of \<open>p\<close> is a directory of
  \<open>t\<close>, and leaves \<open>t\<close> as it is otherwise. The operations below check what the
  operating system checks before they call it.
\<close>

fun write_node :: "path \<Rightarrow> node \<Rightarrow> node \<Rightarrow> node" where
  "write_node [] new n = new"
| "write_node (x # xs) new (File c) = File c"
| "write_node (x # xs) new (Dir es) =
     (case map_of es x of
        None \<Rightarrow> (if xs = [] then Dir (AList.update x new es) else Dir es)
      | Some c \<Rightarrow> Dir (AList.update x (write_node xs new c) es))"

subsection \<open>Exceptions\<close>

text \<open>
  The exceptions the script can meet. \<open>ShutilError\<close> is \<^verbatim>\<open>shutil.Error\<close> with the
  destinations that could not be written. All of them are subclasses of
  \<^verbatim>\<open>Exception\<close>, so \<^verbatim>\<open>except Exception\<close> catches each of them, and only the first
  is caught by \<^verbatim>\<open>except subprocess.CalledProcessError\<close>.
\<close>

datatype exn =
    CalledProcessError int
  | FileNotFoundError
  | FileExistsError
  | NotADirectoryError
  | IsADirectoryError
  | PermissionError
  | ShutilError "path list"
  | TypeError
  | IndexError
  | RuntimeError

subsection \<open>The wall clock\<close>

text \<open>
  A reading of \<^verbatim>\<open>datetime.datetime.now()\<close>: a naive local date and time. Every object
  of the class satisfies \<open>valid_datetime\<close>.
\<close>

record datetime =
  year :: nat
  month :: nat
  day :: nat
  hour :: nat
  minute :: nat
  second :: nat
  microsecond :: nat








text \<open>
  \<^verbatim>\<open>strftime("%Y%m%d_%H%M%S")\<close>: the year in four digits, the other fields in two,
  padded with zeros.
\<close>

definition digit :: "nat \<Rightarrow> char" where
  "digit n = ''0123456789'' ! (n mod 10)"

definition pad2 :: "nat \<Rightarrow> string" where
  "pad2 n = [digit (n div 10), digit n]"

definition pad4 :: "nat \<Rightarrow> string" where
  "pad4 n = [digit (n div 1000), digit (n div 100), digit (n div 10), digit n]"

definition strftime :: "datetime \<Rightarrow> string" where
  "strftime t =
     pad4 (year t) @ pad2 (month t) @ pad2 (day t) @ ''_'' @
     pad2 (hour t) @ pad2 (minute t) @ pad2 (second t)"

definition pad6 :: "nat \<Rightarrow> string" where
  "pad6 n = [digit (n div 100000), digit (n div 10000), digit (n div 1000),
             digit (n div 100), digit (n div 10), digit n]"

text \<open>
  \<^verbatim>\<open>str(datetime)\<close>, which an f-string uses: ISO format with a space, and the
  microseconds only when they are not zero.
\<close>

definition str_datetime :: "datetime \<Rightarrow> string" where
  "str_datetime t =
     pad4 (year t) @ ''-'' @ pad2 (month t) @ ''-'' @ pad2 (day t) @ '' '' @
     pad2 (hour t) @ '':'' @ pad2 (minute t) @ '':'' @ pad2 (second t) @
     (if microsecond t = 0 then [] else ''.'' @ pad6 (microsecond t))"

subsection \<open>Strings\<close>

text \<open>
  A character stands for a code point below 256. \<^verbatim>\<open>str(path)\<close> on Windows joins the
  components with a backslash.
\<close>

definition backslash :: char where
  "backslash = CHR 0x5C"

definition LF :: char where
  "LF = CHR 0x0A"

definition CR :: char where
  "CR = CHR 0x0D"

fun str_path :: "path \<Rightarrow> string" where
  "str_path [] = ''.''"
| "str_path [x] = x"
| "str_path (x # y # ys) = x @ [backslash] @ str_path (y # ys)"

text \<open>
  \<^verbatim>\<open>str.splitlines()\<close>: a line ends at a line feed, a carriage return (with the line
  feed that follows it), or one of the other line boundaries; the text after the last
  boundary is a line only when it is not empty.
\<close>

definition is_linebreak :: "char \<Rightarrow> bool" where
  "is_linebreak c =
     (c \<in> {CHR 0x0A, CHR 0x0B, CHR 0x0C, CHR 0x0D, CHR 0x1C, CHR 0x1D, CHR 0x1E, CHR 0x85})"

fun split_acc :: "string \<Rightarrow> string \<Rightarrow> string list" where
  "split_acc acc [] = (if acc = [] then [] else [rev acc])"
| "split_acc acc (c # cs) =
     (if is_linebreak c then
        (case cs of
           d # ds \<Rightarrow> if c = CR \<and> d = LF then rev acc # split_acc [] ds
                    else rev acc # split_acc [] cs
         | [] \<Rightarrow> [rev acc])
      else split_acc (c # acc) cs)"

definition splitlines :: "string \<Rightarrow> string list" where
  "splitlines s = split_acc [] s"

text \<open>\<^verbatim>\<open>str.strip()\<close> removes the white space at both ends.\<close>

definition is_space :: "char \<Rightarrow> bool" where
  "is_space c =
     (c \<in> {CHR 0x09, CHR 0x0A, CHR 0x0B, CHR 0x0C, CHR 0x0D, CHR 0x1C, CHR 0x1D, CHR 0x1E,
            CHR 0x1F, CHR 0x20, CHR 0x85, CHR 0xA0})"

definition strip :: "string \<Rightarrow> string" where
  "strip s = rev (dropWhile is_space (rev (dropWhile is_space s)))"

subsection \<open>Directories and files\<close>

text \<open>
  \<open>den\<close> tells at which paths the operating system refuses to create or write
  (permissions, a full disk). \<^verbatim>\<open>os.mkdir\<close> on Windows: the path must not exist and its
  parent must be a directory.
\<close>

definition os_mkdir :: "(path \<Rightarrow> bool) \<Rightarrow> path \<Rightarrow> node \<Rightarrow> exn + node" where
  "os_mkdir den p t =
     (if exists_path t p then Inl FileExistsError
      else if \<not> is_dir t (butlast p) then Inl FileNotFoundError
      else if den p then Inl PermissionError
      else Inr (write_node p (Dir []) t))"

text \<open>
  \<^verbatim>\<open>Path.mkdir(parents=True, exist_ok=True)\<close>, as pathlib writes it: try
  \<^verbatim>\<open>os.mkdir\<close>; on \<^verbatim>\<open>FileNotFoundError\<close> create the parent the same way and try once
  more; any other \<^verbatim>\<open>OSError\<close> is swallowed when the path is a directory. The result is
  the exception raised, if any, and the tree as it is then.
\<close>

function path_mkdir :: "(path \<Rightarrow> bool) \<Rightarrow> path \<Rightarrow> node \<Rightarrow> exn option \<times> node" where
  "path_mkdir den p t =
     (case os_mkdir den p t of
        Inr t' \<Rightarrow> (None, t')
      | Inl e \<Rightarrow>
          if e = FileNotFoundError then
            (if p = [] then (Some e, t)
             else (case path_mkdir den (butlast p) t of
                     (Some e', t1) \<Rightarrow> (Some e', t1)
                   | (None, t1) \<Rightarrow>
                       (case os_mkdir den p t1 of
                          Inr t2 \<Rightarrow> (None, t2)
                        | Inl e2 \<Rightarrow>
                            if e2 \<noteq> FileNotFoundError \<and> is_dir t1 p then (None, t1)
                            else (Some e2, t1))))
          else if is_dir t p then (None, t) else (Some e, t))"
  by pat_completeness auto
termination
  by (relation "measure (\<lambda>(den, p, t). length p)") auto

text \<open>
  \<^verbatim>\<open>os.makedirs(name, exist_ok=True)\<close>, which \<^verbatim>\<open>shutil.copytree\<close> calls: when the
  parent does not exist it is created first (a \<^verbatim>\<open>FileExistsError\<close> there is passed
  over), then \<^verbatim>\<open>os.mkdir\<close>, whose \<^verbatim>\<open>OSError\<close> is swallowed when the path is a
  directory.
\<close>

definition mkdir_exist_ok :: "(path \<Rightarrow> bool) \<Rightarrow> path \<Rightarrow> node \<Rightarrow> exn option \<times> node" where
  "mkdir_exist_ok den p t =
     (case os_mkdir den p t of
        Inr t' \<Rightarrow> (None, t')
      | Inl e \<Rightarrow> if is_dir t p then (None, t) else (Some e, t))"

function makedirs :: "(path \<Rightarrow> bool) \<Rightarrow> path \<Rightarrow> node \<Rightarrow> exn option \<times> node" where
  "makedirs den p t =
     (if p \<noteq> [] \<and> \<not> exists_path t (butlast p) then
        (case makedirs den (butlast p) t of
           (Some e, t1) \<Rightarrow> if e = FileExistsError then mkdir_exist_ok den p t1 else (Some e, t1)
         | (None, t1) \<Rightarrow> mkdir_exist_ok den p t1)
      else mkdir_exist_ok den p t)"
  by pat_completeness auto
termination
  by (relation "measure (\<lambda>(den, p, t). length p)") auto

text \<open>
  \<^verbatim>\<open>open(p, "w")\<close>, the writes and the close of a \<^verbatim>\<open>with\<close> block, as one step: the
  file holds the text written.
\<close>

definition open_write :: "(path \<Rightarrow> bool) \<Rightarrow> path \<Rightarrow> string \<Rightarrow> node \<Rightarrow> exn + node" where
  "open_write den p text t =
     (if is_dir t p then Inl IsADirectoryError
      else if \<not> is_dir t (butlast p) then Inl FileNotFoundError
      else if den p then Inl PermissionError
      else Inr (write_node p (File text) t))"

subsection \<open>Copying a tree\<close>

text \<open>
  \<^verbatim>\<open>shutil.copytree(src, dst, dirs_exist_ok=True)\<close>. The entries of the source
  directory are copied one by one into the entries \<open>ds\<close> of the destination: a directory
  is created if it is missing and its entries are copied in turn, a file is copied over
  the file of that name. An entry that cannot be copied (a file where a directory is, a
  directory where a file is, a refusal of the operating system) is recorded with its
  destination and the copy goes on; the result is the list of these errors and the new
  entries of the destination. The source is read as it is when the call starts.
\<close>

fun copy_node :: "(path \<Rightarrow> bool) \<Rightarrow> path \<Rightarrow> node \<Rightarrow> node option \<Rightarrow> path list \<times> node option"
  and copy_children ::
    "(path \<Rightarrow> bool) \<Rightarrow> path \<Rightarrow> (string \<times> node) list \<Rightarrow> (string \<times> node) list
      \<Rightarrow> path list \<times> (string \<times> node) list"
where
  "copy_node den dp (File c) d =
     (case d of
        Some (Dir ds) \<Rightarrow> ([dp], d)
      | _ \<Rightarrow> if den dp then ([dp], d) else ([], Some (File c)))"
| "copy_node den dp (Dir es) d =
     (case d of
        Some (File c) \<Rightarrow> ([dp], d)
      | Some (Dir ds) \<Rightarrow>
          (case copy_children den dp es ds of (errs, ds') \<Rightarrow> (errs, Some (Dir ds')))
      | None \<Rightarrow>
          if den dp then ([dp], None)
          else (case copy_children den dp es [] of (errs, ds') \<Rightarrow> (errs, Some (Dir ds'))))"
| "copy_children den dp [] ds = ([], ds)"
| "copy_children den dp (e # es) ds =
     (case copy_node den (dp @ [fst e]) (snd e) (map_of ds (fst e)) of
        (errs1, r) \<Rightarrow>
          (case copy_children den dp es
                  (case r of None \<Rightarrow> ds | Some n \<Rightarrow> AList.update (fst e) n ds) of
             (errs2, ds') \<Rightarrow> (errs1 @ errs2, ds')))"

text \<open>
  The call itself: the source must be a directory that can be listed, the destination is
  created with its parents, and a non-empty list of errors is raised as
  \<^verbatim>\<open>shutil.Error\<close> after everything else has been copied.
\<close>

definition copytree :: "(path \<Rightarrow> bool) \<Rightarrow> path \<Rightarrow> path \<Rightarrow> node \<Rightarrow> (exn + unit) \<times> node" where
  "copytree den src dst t =
     (case lookup t src of
        None \<Rightarrow> (Inl FileNotFoundError, t)
      | Some (File c) \<Rightarrow> (Inl NotADirectoryError, t)
      | Some (Dir es) \<Rightarrow>
          (case makedirs den dst t of
             (Some e, t1) \<Rightarrow> (Inl e, t1)
           | (None, t1) \<Rightarrow>
               (case lookup t1 dst of
                  Some (Dir ds) \<Rightarrow>
                    (case copy_children den dst es ds of
                       (errs, ds') \<Rightarrow>
                         (if errs = [] then Inr () else Inl (ShutilError errs),
                          write_node dst (Dir ds') t1))
                | _ \<Rightarrow> (Inl NotADirectoryError, t1))))"

section \<open>The script\<close>

subsection \<open>What a run consumes and what it leaves\<close>

text \<open>
  An external command either cannot be started (\<^verbatim>\<open>subprocess.run\<close> raises
  \<^verbatim>\<open>FileNotFoundError\<close>) or exits with a status and its standard output.
\<close>

datatype proc = NotStarted | Exited int string

text \<open>
  The environment of a run: the answers of \<^verbatim>\<open>nvidia-smi\<close> and of \<^verbatim>\<open>reg export\<close>
  (with the text the latter exports), whether the log file can be opened, the home
  directory and the \<^verbatim>\<open>PROGRAMDATA\<close> variable (absent, or the path it names), the
  working directory, the refusals of the operating system and the successive readings
  of the clock.
\<close>

record env =
  nvidia_smi :: proc
  reg_tool :: proc
  reg_data :: string
  log_file_ok :: bool
  home :: "path option"
  programdata :: "path option"
  cwd :: path
  denied :: "path \<Rightarrow> bool"
  clock :: "nat \<Rightarrow> datetime"

text \<open>
  What a run leaves behind, in the order it happens: the records handed to the logging
  handlers (the log file and the console; their time stamps are left out), the lines
  printed, the commands run, and the calls that create a directory, copy a tree or open
  a file for writing.
\<close>

datatype level = INFO | WARNING | ERROR

datatype event =
    Log level string
  | Print string
  | Run "string list"
  | MakeDir path
  | CopyTree path path
  | OpenWrite path

record world =
  fs :: node
  trace :: "event list"
  ticks :: nat

definition emit :: "event \<Rightarrow> world \<Rightarrow> world" where
  "emit ev w = w\<lparr>trace := trace w @ [ev]\<rparr>"

definition emits :: "event list \<Rightarrow> world \<Rightarrow> world" where
  "emits evs w = w\<lparr>trace := trace w @ evs\<rparr>"

definition now :: "env \<Rightarrow> world \<Rightarrow> datetime \<times> world" where
  "now ev w = (clock ev (ticks w), w\<lparr>ticks := ticks w + 1\<rparr>)"

text \<open>
  A statement returns a value or raises; \<open>then_do\<close> runs the next statement when the
  first one returned.
\<close>

definition then_do ::
  "(world \<Rightarrow> (exn + 'a) \<times> world) \<Rightarrow> ('a \<Rightarrow> world \<Rightarrow> (exn + 'b) \<times> world)
    \<Rightarrow> world \<Rightarrow> (exn + 'b) \<times> world" where
  "then_do m f w = (case m w of (Inl e, w') \<Rightarrow> (Inl e, w') | (Inr x, w') \<Rightarrow> f x w')"

text \<open>\<^verbatim>\<open>subprocess.run(..., check=True)\<close>: the output, or the exception.\<close>

definition subprocess_run :: "proc \<Rightarrow> exn + string" where
  "subprocess_run p =
     (case p of
        NotStarted \<Rightarrow> Inl FileNotFoundError
      | Exited rc out \<Rightarrow> if rc \<noteq> 0 then Inl (CalledProcessError rc) else Inr out)"

text \<open>The text of an exception in a log record is cut down to the name of its class.\<close>

fun str_exn :: "exn \<Rightarrow> string" where
  "str_exn (CalledProcessError rc) = ''CalledProcessError''"
| "str_exn FileNotFoundError = ''FileNotFoundError''"
| "str_exn FileExistsError = ''FileExistsError''"
| "str_exn NotADirectoryError = ''NotADirectoryError''"
| "str_exn IsADirectoryError = ''IsADirectoryError''"
| "str_exn PermissionError = ''PermissionError''"
| "str_exn (ShutilError ps) = ''Error''"
| "str_exn TypeError = ''TypeError''"
| "str_exn IndexError = ''IndexError''"
| "str_exn RuntimeError = ''RuntimeError''"

subsection \<open>The functions of \<^verbatim>\<open>main.py\<close>\<close>

text \<open>
  \<^verbatim>\<open>setup_logging\<close>: the file handler opens \<^verbatim>\<open>nvidia_backup.log\<close> at once, which
  raises when the file cannot be opened.
\<close>

definition setup_logging :: "env \<Rightarrow> world \<Rightarrow> (exn + unit) \<times> world" where
  "setup_logging ev w = (if log_file_ok ev then (Inr (), w) else (Inl PermissionError, w))"

definition nvidia_smi_argv :: "string list" where
  "nvidia_smi_argv = [''nvidia-smi'', ''--query-gpu=driver_version'', ''--format=csv'']"

definition get_nvidia_driver_info :: "env \<Rightarrow> world \<Rightarrow> (exn + string) \<times> world" where
  "get_nvidia_driver_info ev w =
     (let w1 = emit (Run nvidia_smi_argv) w in
      case subprocess_run (nvidia_smi ev) of
        Inr out \<Rightarrow>
          (case splitlines out of
             l0 # l1 # ls \<Rightarrow>
               (let driver_version = strip l1 in
                (Inr driver_version,
                 emit (Log INFO (''NVIDIA Driver Version: '' @ driver_version)) w1))
           | _ \<Rightarrow> (Inl IndexError, w1))
      | Inl (CalledProcessError rc) \<Rightarrow>
          (Inr ''Unknown'',
           emit (Log ERROR (''Failed to retrieve NVIDIA driver info: ''
                             @ str_exn (CalledProcessError rc))) w1)
      | Inl e \<Rightarrow> (Inl e, w1))"

definition backup_dir_name :: "datetime \<Rightarrow> string" where
  "backup_dir_name t = ''NVIDIA_Settings_Backup_'' @ strftime t"

definition create_backup_directory :: "env \<Rightarrow> world \<Rightarrow> (exn + path) \<times> world" where
  "create_backup_directory ev w =
     (case now ev w of
        (t, w1) \<Rightarrow>
          (case home ev of
             None \<Rightarrow> (Inl RuntimeError, w1)
           | Some h \<Rightarrow>
               (let backup_dir = h @ [backup_dir_name t];
                    w2 = emit (MakeDir backup_dir) w1 in
                case path_mkdir (denied ev) backup_dir (fs w2) of
                  (Some e, t') \<Rightarrow> (Inl e, w2\<lparr>fs := t'\<rparr>)
                | (None, t') \<Rightarrow>
                    (Inr backup_dir,
                     emit (Log INFO (''Created backup directory: '' @ str_path backup_dir))
                       (w2\<lparr>fs := t'\<rparr>)))))"

definition profile_src_dir :: "path \<Rightarrow> path" where
  "profile_src_dir pd = pd @ [''NVIDIA Corporation'', ''Drs'']"

definition backup_nvidia_profile_files :: "env \<Rightarrow> path \<Rightarrow> world \<Rightarrow> (exn + bool) \<times> world" where
  "backup_nvidia_profile_files ev backup_dir w =
     (case programdata ev of
        None \<Rightarrow> (Inl TypeError, w)
      | Some pd \<Rightarrow>
          (let src_dir = profile_src_dir pd in
           if \<not> exists_path (fs w) src_dir then
             (Inr False,
              emit (Log WARNING (''NVIDIA profile directory not found: '' @ str_path src_dir)) w)
           else
             (let dest_dir = backup_dir @ [''NVIDIA_Profiles''];
                  w1 = emit (CopyTree src_dir dest_dir) w in
              case copytree (denied ev) src_dir dest_dir (fs w1) of
                (Inr u, t') \<Rightarrow>
                  (Inr True,
                   emit (Log INFO (''Backed up NVIDIA profile files to: '' @ str_path dest_dir))
                     (w1\<lparr>fs := t'\<rparr>))
              | (Inl e, t') \<Rightarrow>
                  (Inr False,
                   emit (Log ERROR (''Failed to back up NVIDIA profile files: '' @ str_exn e))
                     (w1\<lparr>fs := t'\<rparr>)))))"

text \<open>
  The export command is outside the script. What the model takes from it: when it exits
  with status 0 and the file can be created, the file holds the exported text; it touches
  nothing else.
\<close>

definition reg_export :: "env \<Rightarrow> path \<Rightarrow> node \<Rightarrow> node" where
  "reg_export ev reg_file t =
     (case reg_tool ev of
        NotStarted \<Rightarrow> t
      | Exited rc out \<Rightarrow>
          if rc = 0 \<and> is_dir t (butlast reg_file) \<and> \<not> is_dir t reg_file
          then write_node reg_file (File (reg_data ev)) t else t)"

definition reg_argv :: "path \<Rightarrow> string list" where
  "reg_argv reg_file =
     [''reg'', ''export'', ''HKCU'' @ [backslash] @ ''Software'' @ [backslash] @ ''NVIDIA Corporation'',
      str_path reg_file]"

definition backup_nvidia_registry_settings :: "env \<Rightarrow> path \<Rightarrow> world \<Rightarrow> (exn + bool) \<times> world" where
  "backup_nvidia_registry_settings ev backup_dir w =
     (let reg_file = backup_dir @ [''nvidia_registry_backup.reg''];
          w1 = emit (Run (reg_argv reg_file)) (w\<lparr>fs := reg_export ev reg_file (fs w)\<rparr>) in
      case subprocess_run (reg_tool ev) of
        Inr out \<Rightarrow>
          (Inr True,
           emit (Log INFO (''Backed up NVIDIA registry settings to: '' @ str_path reg_file)) w1)
      | Inl (CalledProcessError rc) \<Rightarrow>
          (Inr False,
           emit (Log ERROR (''Failed to back up NVIDIA registry settings: ''
                             @ str_exn (CalledProcessError rc))) w1)
      | Inl e \<Rightarrow> (Inl e, w1))"

definition summary :: "path \<Rightarrow> bool \<Rightarrow> bool \<Rightarrow> event list" where
  "summary backup_dir profile_backup_success registry_backup_success =
     (if profile_backup_success \<and> registry_backup_success then
        [Log INFO (''Backup completed successfully. Files saved to: '' @ str_path backup_dir),
         Print ([LF] @ ''Backup completed! Files saved to: '' @ str_path backup_dir),
         Print (''Please manually document display settings (e.g., resolution, refresh rate, ''
                @ ''HDR) as they are not included.'')]
      else
        [Log WARNING ''Backup partially failed. Check log for details.'',
         Print ([LF] @ ''Backup partially failed. Check nvidia_backup.log for details.'')])"

definition driver_info_text :: "string \<Rightarrow> datetime \<Rightarrow> string" where
  "driver_info_text driver_version t =
     ''NVIDIA Driver Version: '' @ driver_version @ [LF] @
     ''Backup Date: '' @ str_datetime t @ [LF] @
     ''System: Windows 11 Pro 64-bit (Build 26100)'' @ [LF] @
     ''GPU: NVIDIA GeForce RTX 4070 Ti SUPER'' @ [LF]"

definition save_driver_info :: "env \<Rightarrow> path \<Rightarrow> string \<Rightarrow> world \<Rightarrow> (exn + unit) \<times> world" where
  "save_driver_info ev backup_dir driver_version w =
     (let p = backup_dir @ [''driver_info.txt''];
          w1 = emit (OpenWrite p) w in
      case open_write (denied ev) p [] (fs w1) of
        Inl e \<Rightarrow> (Inl e, w1)
      | Inr t0 \<Rightarrow>
          (case now ev w1 of
             (t, w2) \<Rightarrow>
               (Inr (), w2\<lparr>fs := write_node p (File (driver_info_text driver_version t)) t0\<rparr>)))"

definition next_steps :: "event list" where
  "next_steps =
     [Print ([LF] @ ''Next steps:''),
      Print ''- Verify the backup files in the directory.'',
      Print ''- Consider copying the backup folder to an external drive or cloud storage.'',
      Print (''- To restore, manually import the .reg file and copy profile files back ''
             @ ''(see documentation).'')]"

definition main :: "env \<Rightarrow> world \<Rightarrow> (exn + unit) \<times> world" where
  "main ev =
     then_do (setup_logging ev) (\<lambda>u.
     then_do (\<lambda>w. (Inr (), emit (Log INFO ''Starting NVIDIA driver settings backup process'') w)) (\<lambda>u.
     then_do (get_nvidia_driver_info ev) (\<lambda>driver_version.
     then_do (create_backup_directory ev) (\<lambda>backup_dir.
     then_do (backup_nvidia_profile_files ev backup_dir) (\<lambda>profile_backup_success.
     then_do (backup_nvidia_registry_settings ev backup_dir) (\<lambda>registry_backup_success.
     then_do (\<lambda>w. (Inr (),
                emits (summary backup_dir profile_backup_success registry_backup_success) w)) (\<lambda>u.
     then_do (save_driver_info ev backup_dir driver_version) (\<lambda>u.
     (\<lambda>w. (Inr (), emits next_steps w))))))))))"

subsection \<open>The companion script \<^verbatim>\<open>make_json.py\<close>\<close>

text \<open>
  \<^verbatim>\<open>json.dump(config, f, indent=4)\<close> for a dictionary of strings: a string is quoted
  with the escapes of \<^verbatim>\<open>ensure_ascii\<close>, each entry stands on its own line, indented
  by four spaces.
\<close>

definition hex_digit :: "nat \<Rightarrow> char" where
  "hex_digit n = ''0123456789abcdef'' ! (n mod 16)"

definition json_escape :: "char \<Rightarrow> string" where
  "json_escape c =
     (if c = CHR 0x22 then [backslash, CHR 0x22]
      else if c = backslash then [backslash, backslash]
      else if c = CHR 0x0A then [backslash, CHR ''n'']
      else if c = CHR 0x0D then [backslash, CHR ''r'']
      else if c = CHR 0x09 then [backslash, CHR ''t'']
      else if c = CHR 0x08 then [backslash, CHR ''b'']
      else if c = CHR 0x0C then [backslash, CHR ''f'']
      else if of_char c < (32 :: nat) \<or> (126 :: nat) < of_char c then
        [backslash, CHR ''u'', CHR ''0'', CHR ''0'',
         hex_digit (of_char c div 16), hex_digit (of_char c)]
      else [c])"

definition json_string :: "string \<Rightarrow> string" where
  "json_string s = [CHR 0x22] @ concat (map json_escape s) @ [CHR 0x22]"

fun json_items :: "(string \<times> string) list \<Rightarrow> string" where
  "json_items [] = []"
| "json_items [kv] = ''    '' @ json_string (fst kv) @ '': '' @ json_string (snd kv)"
| "json_items (kv # kvs) =
     ''    '' @ json_string (fst kv) @ '': '' @ json_string (snd kv) @ '','' @ [LF]
     @ json_items kvs"

definition json_dump :: "(string \<times> string) list \<Rightarrow> string" where
  "json_dump d = (if d = [] then ''{}'' else ''{'' @ [LF] @ json_items d @ [LF] @ ''}'')"

definition config :: "path \<Rightarrow> (string \<times> string) list" where
  "config src_dir = [(''src_dir'', str_path src_dir)]"

definition make_json :: "env \<Rightarrow> world \<Rightarrow> (exn + unit) \<times> world" where
  "make_json ev w =
     (case programdata ev of
        None \<Rightarrow> (Inl TypeError, w)
      | Some pd \<Rightarrow>
          (let src_dir = profile_src_dir pd;
               config_file = cwd ev @ [''config.json''];
               w1 = emit (OpenWrite config_file) w in
           case open_write (denied ev) config_file (json_dump (config src_dir)) (fs w1) of
             Inl e \<Rightarrow> (Inl e, w1)
           | Inr t' \<Rightarrow>
               (Inr (), emit (Print ''Configuration file created: config.json'') (w1\<lparr>fs := t'\<rparr>))))"

section \<open>Auxiliary notions\<close>

declare path_mkdir.simps [simp del] makedirs.simps [simp del]

text \<open>
  Creating \<open>p\<close> with its parents changes the tree at \<open>p\<close> and above it only: every
  other path reads as before, and what existed above \<open>p\<close> is still a file or a directory
  as before.
\<close>

definition only_above :: "path \<Rightarrow> node \<Rightarrow> node \<Rightarrow> bool" where
  "only_above p t t' =
     ((\<forall>q. \<not> prefix q p \<longrightarrow> lookup t' q = lookup t q) \<and>
      (\<forall>q. prefix q p \<longrightarrow> stat t q \<noteq> None \<longrightarrow> stat t' q = stat t q))"


text \<open>Two readings of the clock within the same second.\<close>

definition same_second :: "datetime \<Rightarrow> datetime \<Rightarrow> bool" where
  "same_second a b =
     (year a = year b \<and> month a = month b \<and> day a = day b \<and>
      hour a = hour b \<and> minute a = minute b \<and> second a = second b)"

text \<open>The steps of a run: its trace without the log records.\<close>

fun is_log :: "event \<Rightarrow> bool" where
  "is_log (Log l s) = True"
| "is_log e = False"

definition steps :: "event list \<Rightarrow> event list" where
  "steps tr = filter (\<lambda>e. \<not> is_log e) tr"



section \<open>A machine to run the script on\<close>

text \<open>
  A small machine on which the theorems below are tried: a user \<open>u\<close> with a home
  directory, an empty \<^verbatim>\<open>ProgramData\<close>, a driver that answers, and a clock whose first
  two readings are less than two seconds apart.
\<close>

definition ex_tree :: node where
  "ex_tree = Dir [(''C:'', Dir [(''Users'', Dir [(''u'', Dir [])]), (''ProgramData'', Dir [])])]"

definition ex_t1 :: datetime where
  "ex_t1 = \<lparr>year = 2025, month = 3, day = 9, hour = 14, minute = 5, second = 59, microsecond = 250000\<rparr>"

definition ex_t2 :: datetime where
  "ex_t2 = \<lparr>year = 2025, month = 3, day = 9, hour = 14, minute = 6, second = 1, microsecond = 0\<rparr>"

definition ex_env :: env where
  "ex_env = \<lparr>nvidia_smi = Exited 0 (''driver_version'' @ [LF] @ ''551.23'' @ [LF]),
             reg_tool = Exited 0 [], reg_data = ''Windows Registry Editor Version 5.00'',
             log_file_ok = True, home = Some [''C:'', ''Users'', ''u''],
             programdata = Some [''C:'', ''ProgramData''], cwd = [''C:'', ''Users'', ''u''],
             denied = (\<lambda>p. False), clock = (\<lambda>n. if n = 0 then ex_t1 else ex_t2)\<rparr>"

definition ex_world :: world where
  "ex_world = \<lparr>fs = ex_tree, trace = [], ticks = 0\<rparr>"

text \<open>Variations: a clock read twice within a second, no \<^verbatim>\<open>PROGRAMDATA\<close>, a driver query that fails.\<close>

definition ex_env_same_second :: env where
  "ex_env_same_second =
     ex_env\<lparr>clock := (\<lambda>n. if n = 0 then ex_t1 else ex_t1\<lparr>microsecond := 900000\<rparr>)\<rparr>"


definition ex_env_failing_driver :: env where
  "ex_env_failing_driver = ex_env\<lparr>nvidia_smi := Exited 9 []\<rparr>"




section \<open>Properties\<close>

subsection \<open>Reading the tree after a write\<close>

lemma is_dir_Nil: "is_dir t [] = (case t of Dir es \<Rightarrow> True | File c \<Rightarrow> False)"
  by (simp add: is_dir_def split: node.splits)

lemma is_dir_File_Cons: "\<not> is_dir (File c) (x # xs)"
  by (simp add: is_dir_def)

lemma is_dir_Dir_Cons:
  "is_dir (Dir es) (x # xs) = (case map_of es x of None \<Rightarrow> False | Some c \<Rightarrow> is_dir c xs)"
  by (simp add: is_dir_def split: option.splits)

lemma lookup_write_node_under:
  "p = [] \<or> is_dir t (butlast p) \<Longrightarrow> lookup (write_node p new t) (p @ q) = lookup new q"
proof (induction p arbitrary: t)
  case Nil
  then show ?case by simp
next
  case (Cons x xs)
  show ?case
  proof (cases t)
    case (File c)
    with Cons.prems show ?thesis
      by (cases xs) (simp_all add: is_dir_Nil is_dir_File_Cons)
  next
    case (Dir es)
    show ?thesis
    proof (cases "map_of es x")
      case None
      with Cons.prems Dir show ?thesis
        by (cases xs) (simp_all add: is_dir_Dir_Cons update_conv')
    next
      case (Some c)
      with Cons.prems Dir have "xs = [] \<or> is_dir c (butlast xs)"
        by (cases xs) (simp_all add: is_dir_Dir_Cons)
      with Cons.IH [of c] Some Dir show ?thesis
        by (simp add: update_conv')
    qed
  qed
qed

lemma lookup_write_node_apart:
  "\<not> prefix p q \<Longrightarrow> \<not> prefix q p \<Longrightarrow> lookup (write_node p new t) q = lookup t q"
proof (induction p arbitrary: t q)
  case Nil
  then show ?case by simp
next
  case (Cons x xs)
  from Cons.prems obtain y ys where q: "q = y # ys" by (cases q) auto
  show ?case
  proof (cases t)
    case (File c)
    then show ?thesis by (simp add: q)
  next
    case (Dir es)
    show ?thesis
    proof (cases "x = y")
      case False
      with Dir q show ?thesis
        by (simp add: update_conv' split: option.splits)
    next
      case True
      with Cons.prems q have ap: "\<not> prefix xs ys" "\<not> prefix ys xs" by simp_all
      then have "xs \<noteq> []" by auto
      with Cons.IH [OF ap] True Dir q show ?thesis
        by (simp add: update_conv' split: option.splits)
    qed
  qed
qed

lemma stat_write_node_above:
  "strict_prefix q p \<Longrightarrow> stat (write_node p new t) q = stat t q"
proof (induction p arbitrary: t q)
  case Nil
  then show ?case by simp
next
  case (Cons x xs)
  show ?case
  proof (cases q)
    case Nil
    then show ?thesis
      by (cases t) (simp_all add: stat_def split: option.splits)
  next
    case (Cons y ys)
    with Cons.prems have xy: "y = x" and sp: "strict_prefix ys xs"
      by (auto simp add: strict_prefix_def)
    then have ne: "xs \<noteq> []" by auto
    show ?thesis
    proof (cases t)
      case (File c)
      then show ?thesis by (simp add: stat_def Cons)
    next
      case (Dir es)
      with Cons.IH [OF sp] xy ne Cons show ?thesis
        by (simp add: stat_def update_conv' split: option.splits)
    qed
  qed
qed

subsection \<open>Creating directories\<close>

lemma only_above_refl: "only_above p t t"
  by (simp add: only_above_def)

lemma only_above_trans: "only_above p t t1 \<Longrightarrow> only_above p t1 t2 \<Longrightarrow> only_above p t t2"
  by (simp add: only_above_def)

lemma only_above_butlast: "only_above (butlast p) t t' \<Longrightarrow> only_above p t t'"
proof (cases "p = []")
  case True
  assume "only_above (butlast p) t t'"
  with True show ?thesis by simp
next
  case False
  assume a: "only_above (butlast p) t t'"
  have pre: "prefix q p \<longleftrightarrow> prefix q (butlast p) \<or> q = p" for q
    using False prefix_snoc [of q "butlast p" "last p"] by auto
  have np: "\<not> prefix p (butlast p)"
    using False prefix_length_le [of p "butlast p"] by (cases p rule: rev_cases) auto
  show ?thesis
    unfolding only_above_def
  proof (intro conjI allI impI)
    fix q assume "\<not> prefix q p"
    with pre have "\<not> prefix q (butlast p)" by simp
    with a show "lookup t' q = lookup t q" by (simp add: only_above_def)
  next
    fix q assume q: "prefix q p" "stat t q \<noteq> None"
    show "stat t' q = stat t q"
    proof (cases "q = p")
      case True
      with a np show ?thesis by (simp add: only_above_def stat_def)
    next
      case False
      with q pre have "prefix q (butlast p)" by simp
      with a q show ?thesis by (simp add: only_above_def)
    qed
  qed
qed

lemma lookup_None_append: "lookup t p = None \<Longrightarrow> lookup t (p @ r) = None"
  by (induction t p rule: lookup.induct) (simp_all split: option.splits)

lemma os_mkdir_Inr:
  assumes "os_mkdir den p t = Inr t'"
  shows "is_dir t' p" and "only_above p t t'"
proof -
  from assms have t': "t' = write_node p (Dir []) t" and ne: "lookup t p = None"
    and par: "is_dir t (butlast p)"
    by (simp_all add: os_mkdir_def exists_path_def split: if_splits option.splits)
  from ne have pne: "p \<noteq> []" by auto
  from par have l: "lookup t' (p @ r) = lookup (Dir []) r" for r
    unfolding t' by (intro lookup_write_node_under) simp
  from l [of "[]"] show "is_dir t' p" by (simp add: is_dir_def)
  show "only_above p t t'"
    unfolding only_above_def
  proof (intro conjI allI impI)
    fix q assume nq: "\<not> prefix q p"
    show "lookup t' q = lookup t q"
    proof (cases "prefix p q")
      case True
      then obtain r where q: "q = p @ r" by (auto simp add: prefix_def)
      with nq have "r \<noteq> []" by auto
      then have "lookup (Dir []) r = None" by (cases r) simp_all
      with l [of r] lookup_None_append [OF ne, of r] q show ?thesis by simp
    next
      case False
      with nq show ?thesis unfolding t' by (intro lookup_write_node_apart)
    qed
  next
    fix q assume q: "prefix q p" "stat t q \<noteq> None"
    with ne have "q \<noteq> p" by (auto simp add: stat_def)
    with q have "strict_prefix q p" by (simp add: strict_prefix_def)
    then show "stat t' q = stat t q" unfolding t' by (rule stat_write_node_above)
  qed
qed



lemma path_mkdir_frame:
  "path_mkdir den p t = (r, t') \<Longrightarrow> only_above p t t' \<and> (r = None \<longrightarrow> is_dir t' p)"
proof (induction den p t arbitrary: r t' rule: path_mkdir.induct)
  case (1 den p t)
  show ?case
  proof (cases "os_mkdir den p t")
    case (Inr t0)
    with "1.prems" os_mkdir_Inr [OF Inr] show ?thesis
      by (simp add: path_mkdir.simps [of den p t])
  next
    case (Inl e)
    show ?thesis
    proof (cases "e = FileNotFoundError \<and> p \<noteq> []")
      case False
      with "1.prems" Inl show ?thesis
        by (auto simp add: path_mkdir.simps [of den p t] only_above_refl split: if_splits)
    next
      case True
      obtain r1 t1 where pm: "path_mkdir den (butlast p) t = (r1, t1)"
        by (cases "path_mkdir den (butlast p) t")
      from "1.IH" [OF Inl _ _ pm] True have "only_above (butlast p) t t1" by simp
      then have oa: "only_above p t t1" by (rule only_above_butlast)
      show ?thesis
      proof (cases r1)
        case (Some e1)
        with "1.prems" Inl True pm oa show ?thesis
          by (auto simp add: path_mkdir.simps [of den p t])
      next
        case None
        show ?thesis
        proof (cases "os_mkdir den p t1")
          case (Inr t2)
          with "1.prems" Inl True pm None have "r = None" "t' = t2"
            by (simp_all add: path_mkdir.simps [of den p t])
          with os_mkdir_Inr [OF Inr] oa show ?thesis
            by (auto intro: only_above_trans)
        next
          case (Inl e2)
          with "1.prems" \<open>os_mkdir den p t = Inl e\<close> True pm None oa show ?thesis
            by (auto simp add: path_mkdir.simps [of den p t] split: if_splits)
        qed
      qed
    qed
  qed
qed


subsection \<open>The format of the time stamp\<close>





subsection \<open>The backup directory\<close>



lemma create_backup_directory_Inr:
  assumes "create_backup_directory ev w = (Inr d, w')"
  shows "\<exists>h. home ev = Some h \<and> d = h @ [backup_dir_name (clock ev (ticks w))]"
    and "is_dir (fs w') d"
    and "only_above d (fs w) (fs w')"
    and "ticks w' = Suc (ticks w)"
    and "trace w' = trace w @ [MakeDir d, Log INFO (''Created backup directory: '' @ str_path d)]"
proof -
  from assms obtain h where h: "home ev = Some h"
    by (auto simp add: create_backup_directory_def now_def split: option.splits)
  let ?d = "h @ [backup_dir_name (clock ev (ticks w))]"
  obtain r t' where pm: "path_mkdir (denied ev) ?d (fs w) = (r, t')"
    by (cases "path_mkdir (denied ev) ?d (fs w)")
  from assms h pm have r: "r = None" and d: "d = ?d" and w': "fs w' = t'"
    "ticks w' = Suc (ticks w)"
    "trace w' = trace w @ [MakeDir d, Log INFO (''Created backup directory: '' @ str_path d)]"
    by (auto simp add: create_backup_directory_def now_def emit_def Let_def split: option.splits)
  from h d show "\<exists>h. home ev = Some h \<and> d = h @ [backup_dir_name (clock ev (ticks w))]" by simp
  from path_mkdir_frame [OF pm] r d w' show "is_dir (fs w') d" "only_above d (fs w) (fs w')"
    by simp_all
  from w' show "ticks w' = Suc (ticks w)"
    "trace w' = trace w @ [MakeDir d, Log INFO (''Created backup directory: '' @ str_path d)]"
    by simp_all
qed





subsection \<open>The steps of \<^verbatim>\<open>main\<close>\<close>

lemma is_dir_stat: "is_dir t p \<longleftrightarrow> stat t p = Some KDir"
  by (auto simp add: is_dir_def stat_def split: option.splits node.splits)


lemma then_do_Inr:
  assumes "then_do m f w = (Inr y, w')"
  obtains x w1 where "m w = (Inr x, w1)" "f x w1 = (Inr y, w')"
  using assms by (auto simp add: then_do_def split: prod.splits sum.splits)

lemma get_nvidia_driver_info_frame:
  "fs (snd (get_nvidia_driver_info ev w)) = fs w"
  "ticks (snd (get_nvidia_driver_info ev w)) = ticks w"
  by (simp_all add: get_nvidia_driver_info_def emit_def Let_def
      split: sum.splits list.splits exn.splits)

lemma get_nvidia_driver_info_failed:
  assumes "nvidia_smi ev = Exited rc out" "rc \<noteq> 0"
  shows "get_nvidia_driver_info ev w =
    (Inr ''Unknown'',
     emits [Run nvidia_smi_argv,
            Log ERROR (''Failed to retrieve NVIDIA driver info: '' @ ''CalledProcessError'')] w)"
  using assms by (simp add: get_nvidia_driver_info_def subprocess_run_def emit_def emits_def)

lemma save_driver_info_Inr:
  assumes "save_driver_info ev backup_dir driver_version w = (Inr (), w')"
  shows "lookup (fs w') (backup_dir @ [''driver_info.txt'']) =
           Some (File (driver_info_text driver_version (clock ev (ticks w))))"
    and "trace w' = trace w @ [OpenWrite (backup_dir @ [''driver_info.txt''])]"
    and "is_dir (fs w) backup_dir"
proof -
  let ?p = "backup_dir @ [''driver_info.txt'']"
  from assms obtain t0 where ow: "open_write (denied ev) ?p [] (fs w) = Inr t0"
    and w': "w' = w\<lparr>trace := trace w @ [OpenWrite ?p], ticks := ticks w + 1,
        fs := write_node ?p (File (driver_info_text driver_version (clock ev (ticks w)))) t0\<rparr>"
    by (auto simp add: save_driver_info_def emit_def Let_def now_def split: sum.splits)
  from ow have d: "is_dir (fs w) backup_dir" and t0: "t0 = write_node ?p (File []) (fs w)"
    by (simp_all add: open_write_def split: if_splits)
  have "strict_prefix backup_dir ?p" by (simp add: strict_prefix_def)
  then have "stat t0 backup_dir = stat (fs w) backup_dir"
    unfolding t0 by (rule stat_write_node_above)
  with d have "is_dir t0 (butlast ?p)" by (simp add: is_dir_stat)
  then have "lookup (write_node ?p (File (driver_info_text driver_version (clock ev (ticks w)))) t0) (?p @ [])
      = lookup (File (driver_info_text driver_version (clock ev (ticks w)))) []"
    by (intro lookup_write_node_under) simp
  with w' show "lookup (fs w') ?p = Some (File (driver_info_text driver_version (clock ev (ticks w))))"
    by simp
  from w' show "trace w' = trace w @ [OpenWrite ?p]" by simp
  from d show "is_dir (fs w) backup_dir" .
qed

lemma main_Inr:
  assumes "main ev w = (Inr (), w')"
  shows "\<exists>driver_version backup_dir profile_ok registry_ok w2 w3 w4 w5 w7.
    log_file_ok ev \<and>
    get_nvidia_driver_info ev
       (emit (Log INFO ''Starting NVIDIA driver settings backup process'') w) = (Inr driver_version, w2) \<and>
    create_backup_directory ev w2 = (Inr backup_dir, w3) \<and>
    backup_nvidia_profile_files ev backup_dir w3 = (Inr profile_ok, w4) \<and>
    backup_nvidia_registry_settings ev backup_dir w4 = (Inr registry_ok, w5) \<and>
    save_driver_info ev backup_dir driver_version
       (emits (summary backup_dir profile_ok registry_ok) w5) = (Inr (), w7) \<and>
    w' = emits next_steps w7"
  using assms unfolding main_def
  by (elim then_do_Inr) (simp add: setup_logging_def split: if_splits)


lemma split_acc_line:
  "\<forall>c \<in> set l. \<not> is_linebreak c \<Longrightarrow>
   split_acc acc (l @ LF # rest) = (rev acc @ l) # split_acc [] rest"
proof (induction l arbitrary: acc)
  case Nil
  show ?case by (cases rest) (simp_all add: is_linebreak_def LF_def CR_def)
next
  case (Cons c l)
  then show ?case by simp
qed

lemma driver_info_first_line:
  "\<forall>c \<in> set v. \<not> is_linebreak c \<Longrightarrow>
   (''NVIDIA Driver Version: '' @ v) \<in> set (splitlines (driver_info_text v t))"
proof -
  assume "\<forall>c \<in> set v. \<not> is_linebreak c"
  then have "\<forall>c \<in> set (''NVIDIA Driver Version: '' @ v). \<not> is_linebreak c"
    by (auto simp add: is_linebreak_def)
  from split_acc_line [OF this, of "[]"] show ?thesis
    by (simp add: splitlines_def driver_info_text_def)
qed

lemma backup_nvidia_profile_files_ticks:
  "ticks (snd (backup_nvidia_profile_files ev backup_dir w)) = ticks w"
  by (simp add: backup_nvidia_profile_files_def emit_def Let_def
      split: option.splits prod.splits sum.splits)

lemma backup_nvidia_registry_settings_ticks:
  "ticks (snd (backup_nvidia_registry_settings ev backup_dir w)) = ticks w"
  by (simp add: backup_nvidia_registry_settings_def emit_def Let_def
      split: sum.splits exn.splits)

lemma main_driver_info:
  assumes "main ev w = (Inr (), w')"
  shows "\<exists>h v. home ev = Some h \<and>
      fst (get_nvidia_driver_info ev w) = Inr v \<and>
      lookup (fs w') (h @ [backup_dir_name (clock ev (ticks w)), ''driver_info.txt'']) =
        Some (File (driver_info_text v (clock ev (Suc (ticks w)))))"
proof -
  let ?w1 = "emit (Log INFO ''Starting NVIDIA driver settings backup process'') w"
  from main_Inr [OF assms] obtain dv bd pf rg w2 w3 w4 w5 w7 where
    g: "get_nvidia_driver_info ev ?w1 = (Inr dv, w2)"
    and c: "create_backup_directory ev w2 = (Inr bd, w3)"
    and p: "backup_nvidia_profile_files ev bd w3 = (Inr pf, w4)"
    and r: "backup_nvidia_registry_settings ev bd w4 = (Inr rg, w5)"
    and s: "save_driver_info ev bd dv (emits (summary bd pf rg) w5) = (Inr (), w7)"
    and w': "w' = emits next_steps w7"
    by blast
  from g have v: "fst (get_nvidia_driver_info ev w) = Inr dv"
    by (auto simp add: get_nvidia_driver_info_def emit_def Let_def
        split: sum.splits list.splits exn.splits)
  from get_nvidia_driver_info_frame(2) [of ev ?w1] g have t2: "ticks w2 = ticks w"
    by (simp add: emit_def)
  from create_backup_directory_Inr(1,4) [OF c] t2 obtain h where h: "home ev = Some h"
    and bd: "bd = h @ [backup_dir_name (clock ev (ticks w))]" and t3: "ticks w3 = Suc (ticks w)"
    by auto
  from backup_nvidia_profile_files_ticks [of ev bd w3] p t3 have t4: "ticks w4 = Suc (ticks w)"
    by simp
  from backup_nvidia_registry_settings_ticks [of ev bd w4] r t4 have t5: "ticks w5 = Suc (ticks w)"
    by simp
  from save_driver_info_Inr(1) [OF s] t5 w' bd
  have "lookup (fs w') (h @ [backup_dir_name (clock ev (ticks w)), ''driver_info.txt'']) =
        Some (File (driver_info_text dv (clock ev (Suc (ticks w)))))"
    by (simp add: emits_def)
  with h v show ?thesis by blast
qed

text \<open>
  \<^bold>\<open>C8\<close>. When \<^verbatim>\<open>nvidia-smi\<close> exits with a status other than 0,
  \<^verbatim>\<open>get_nvidia_driver_info\<close> returns \<^verbatim>\<open>"Unknown"\<close>, and the file
  \<^verbatim>\<open>driver_info.txt\<close> that a run of \<^verbatim>\<open>main\<close> writes in its backup directory then
  has the line \<^verbatim>\<open>NVIDIA Driver Version: Unknown\<close>.
\<close>

theorem failed_query_gives_Unknown:
  assumes "nvidia_smi ev = Exited rc out" and "rc \<noteq> 0"
  shows "fst (get_nvidia_driver_info ev w) = Inr ''Unknown'' \<and>
    (\<forall>w'. main ev w = (Inr (), w') \<longrightarrow>
       (\<exists>h text. home ev = Some h \<and>
          lookup (fs w') (h @ [backup_dir_name (clock ev (ticks w)), ''driver_info.txt''])
            = Some (File text) \<and>
          ''NVIDIA Driver Version: Unknown'' \<in> set (splitlines text)))"
proof (intro conjI allI impI)
  show u: "fst (get_nvidia_driver_info ev w) = Inr ''Unknown''"
    by (simp add: get_nvidia_driver_info_failed [OF assms])
  fix w' assume "main ev w = (Inr (), w')"
  from main_driver_info [OF this] u obtain h where h: "home ev = Some h"
    and l: "lookup (fs w') (h @ [backup_dir_name (clock ev (ticks w)), ''driver_info.txt'']) =
        Some (File (driver_info_text ''Unknown'' (clock ev (Suc (ticks w)))))"
    by auto
  have "\<forall>c \<in> set ''Unknown''. \<not> is_linebreak c" by (simp add: is_linebreak_def)
  from driver_info_first_line [OF this, of "clock ev (Suc (ticks w))"]
  have "''NVIDIA Driver Version: Unknown'' \<in>
      set (splitlines (driver_info_text ''Unknown'' (clock ev (Suc (ticks w)))))"
    by simp
  with h l show "\<exists>h text. home ev = Some h \<and>
          lookup (fs w') (h @ [backup_dir_name (clock ev (ticks w)), ''driver_info.txt''])
            = Some (File text) \<and>
          ''NVIDIA Driver Version: Unknown'' \<in> set (splitlines text)"
    by blast
qed

lemmas ex_run_defs =
  main_def then_do_def setup_logging_def get_nvidia_driver_info_def
  subprocess_run_def create_backup_directory_def now_def backup_nvidia_profile_files_def
  profile_src_dir_def backup_nvidia_registry_settings_def reg_export_def save_driver_info_def
  open_write_def ex_env_def ex_world_def ex_tree_def
  ex_t1_def ex_t2_def emit_def emits_def backup_dir_name_def strftime_def pad4_def pad2_def
  digit_def path_mkdir.simps os_mkdir_def exists_path_def is_dir_def Let_def update_conv'

lemma ex_main_failing_driver:
  "fst (main ex_env_failing_driver ex_world) = Inr ()"
  by (simp add: ex_run_defs ex_env_failing_driver_def)

theorem failed_query_gives_Unknown_witness:
  "nvidia_smi ex_env_failing_driver = Exited 9 [] \<and> (9 :: int) \<noteq> 0 \<and>
   fst (get_nvidia_driver_info ex_env_failing_driver ex_world) = Inr ''Unknown'' \<and>
   fst (main ex_env_failing_driver ex_world) = Inr () \<and>
   (\<exists>text. lookup (fs (snd (main ex_env_failing_driver ex_world)))
        [''C:'', ''Users'', ''u'', ''NVIDIA_Settings_Backup_20250309_140559'', ''driver_info.txt'']
        = Some (File text) \<and>
      ''NVIDIA Driver Version: Unknown'' \<in> set (splitlines text))"
proof -
  have a: "nvidia_smi ex_env_failing_driver = Exited 9 []"
    by (simp add: ex_env_failing_driver_def)
  have b: "(9 :: int) \<noteq> 0" by simp
  have m: "main ex_env_failing_driver ex_world = (Inr (), snd (main ex_env_failing_driver ex_world))"
    using ex_main_failing_driver by (simp add: prod_eq_iff)
  have h: "home ex_env_failing_driver = Some [''C:'', ''Users'', ''u'']"
    and n: "backup_dir_name (clock ex_env_failing_driver (ticks ex_world))
            = ''NVIDIA_Settings_Backup_20250309_140559''"
    by (simp_all add: ex_env_failing_driver_def ex_env_def ex_world_def ex_t1_def
        backup_dir_name_def strftime_def pad4_def pad2_def digit_def)
  from failed_query_gives_Unknown [OF a b, of ex_world] m h n a ex_main_failing_driver
  show ?thesis by auto
qed



lemma create_backup_directory_exists:
  assumes "home ev = Some h" and "is_dir (fs w) (h @ [backup_dir_name (clock ev (ticks w))])"
  shows "fst (create_backup_directory ev w) = Inr (h @ [backup_dir_name (clock ev (ticks w))])"
    and "fs (snd (create_backup_directory ev w)) = fs w"
proof -
  let ?d = "h @ [backup_dir_name (clock ev (ticks w))]"
  from assms(2) have "path_mkdir (denied ev) ?d (fs w) = (None, fs w)"
    by (simp add: path_mkdir.simps [of _ ?d] os_mkdir_def exists_path_def is_dir_def
        split: option.splits)
  with assms(1) show "fst (create_backup_directory ev w) = Inr ?d"
    "fs (snd (create_backup_directory ev w)) = fs w"
    by (simp_all add: create_backup_directory_def now_def emit_def Let_def)
qed

text \<open>
  \<^bold>\<open>C9\<close>. \<^verbatim>\<open>create_backup_directory\<close> does not raise when the directory it is about
  to create is already there: it returns that directory and leaves the tree as it is. So
  when a run has returned and the next one reads the clock within the same second, the
  next run returns the same path.
\<close>

theorem create_backup_directory_again:
  assumes "home ev = Some h"
  shows "(is_dir (fs w) (h @ [backup_dir_name (clock ev (ticks w))]) \<longrightarrow>
      fst (create_backup_directory ev w) = Inr (h @ [backup_dir_name (clock ev (ticks w))]) \<and>
      fs (snd (create_backup_directory ev w)) = fs w) \<and>
    (\<forall>d w1. create_backup_directory ev w = (Inr d, w1) \<longrightarrow>
       same_second (clock ev (ticks w)) (clock ev (ticks w1)) \<longrightarrow>
       fst (create_backup_directory ev w1) = Inr d \<and>
       fs (snd (create_backup_directory ev w1)) = fs w1)"
proof (intro conjI allI impI)
  assume "is_dir (fs w) (h @ [backup_dir_name (clock ev (ticks w))])"
  from create_backup_directory_exists [OF assms this]
  show "fst (create_backup_directory ev w) = Inr (h @ [backup_dir_name (clock ev (ticks w))])"
    "fs (snd (create_backup_directory ev w)) = fs w"
    by simp_all
next
  fix d w1
  assume run: "create_backup_directory ev w = (Inr d, w1)"
    and same: "same_second (clock ev (ticks w)) (clock ev (ticks w1))"
  from same have "strftime (clock ev (ticks w)) = strftime (clock ev (ticks w1))"
    by (simp add: same_second_def strftime_def)
  then have n: "backup_dir_name (clock ev (ticks w1)) = backup_dir_name (clock ev (ticks w))"
    by (simp add: backup_dir_name_def)
  from create_backup_directory_Inr(1,2) [OF run] assms
  have "d = h @ [backup_dir_name (clock ev (ticks w1))]" "is_dir (fs w1) d"
    by (simp_all add: n)
  with create_backup_directory_exists [OF assms, of w1]
  show "fst (create_backup_directory ev w1) = Inr d"
    "fs (snd (create_backup_directory ev w1)) = fs w1"
    by simp_all
qed


theorem create_backup_directory_again_witness:
  "home ex_env_same_second = Some [''C:'', ''Users'', ''u''] \<and>
   fst (create_backup_directory ex_env_same_second ex_world) =
     Inr [''C:'', ''Users'', ''u'', ''NVIDIA_Settings_Backup_20250309_140559''] \<and>
   same_second (clock ex_env_same_second 0) (clock ex_env_same_second 1) \<and>
   is_dir (fs (snd (create_backup_directory ex_env_same_second ex_world)))
     [''C:'', ''Users'', ''u'', ''NVIDIA_Settings_Backup_20250309_140559''] \<and>
   fst (create_backup_directory ex_env_same_second
          (snd (create_backup_directory ex_env_same_second ex_world))) =
     Inr [''C:'', ''Users'', ''u'', ''NVIDIA_Settings_Backup_20250309_140559'']"
proof -
  let ?d = "[''C:'', ''Users'', ''u'', ''NVIDIA_Settings_Backup_20250309_140559'']"
  let ?w1 = "snd (create_backup_directory ex_env_same_second ex_world)"
  have h: "home ex_env_same_second = Some [''C:'', ''Users'', ''u'']"
    by (simp add: ex_env_same_second_def ex_env_def)
  have f: "fst (create_backup_directory ex_env_same_second ex_world) = Inr ?d"
    by (simp add: ex_run_defs ex_env_same_second_def)
  then have run: "create_backup_directory ex_env_same_second ex_world = (Inr ?d, ?w1)"
    by (simp add: prod_eq_iff)
  from create_backup_directory_Inr(2,4) [OF run]
  have d: "is_dir (fs ?w1) ?d" and t: "ticks ?w1 = 1" "ticks ex_world = 0"
    by (simp_all add: ex_world_def)
  have s: "same_second (clock ex_env_same_second 0) (clock ex_env_same_second 1)"
    by (simp add: same_second_def ex_env_same_second_def ex_env_def)
  from create_backup_directory_again [OF h, of ex_world] run s t
  have "fst (create_backup_directory ex_env_same_second ?w1) = Inr ?d"
    by simp
  with h f s d show ?thesis by simp
qed





subsection \<open>The configuration file\<close>

lemma json_dump_config:
  "json_dump (config src_dir) =
     ''{'' @ [LF] @ ''    '' @ [CHR 0x22] @ ''src_dir'' @ [CHR 0x22] @ '': ''
       @ json_string (str_path src_dir) @ [LF] @ ''}''"
  by (simp add: json_dump_def config_def json_string_def json_escape_def backslash_def)

text \<open>
  \<^bold>\<open>C7\<close>. When \<^verbatim>\<open>PROGRAMDATA\<close> is set and \<^verbatim>\<open>config.json\<close> can be written in
  the working directory, \<^verbatim>\<open>make_json.py\<close> returns and the file holds the JSON text of
  a dictionary with the single key \<^verbatim>\<open>src_dir\<close>, whose value is the string form of the
  path \<^verbatim>\<open>PROGRAMDATA\NVIDIA Corporation\Drs\<close>: one object with one member.
\<close>

theorem make_json_writes_src_dir:
  assumes "programdata ev = Some pd"
    and "is_dir (fs w) (cwd ev)"
    and "\<not> is_dir (fs w) (cwd ev @ [''config.json''])"
    and "\<not> denied ev (cwd ev @ [''config.json''])"
  shows "fst (make_json ev w) = Inr () \<and>
    map fst (config (pd @ [''NVIDIA Corporation'', ''Drs''])) = [''src_dir''] \<and>
    map_of (config (pd @ [''NVIDIA Corporation'', ''Drs''])) ''src_dir''
      = Some (str_path (pd @ [''NVIDIA Corporation'', ''Drs''])) \<and>
    lookup (fs (snd (make_json ev w))) (cwd ev @ [''config.json''])
      = Some (File (json_dump (config (pd @ [''NVIDIA Corporation'', ''Drs''])))) \<and>
    json_dump (config (pd @ [''NVIDIA Corporation'', ''Drs''])) =
      ''{'' @ [LF] @ ''    '' @ [CHR 0x22] @ ''src_dir'' @ [CHR 0x22] @ '': ''
        @ json_string (str_path (pd @ [''NVIDIA Corporation'', ''Drs''])) @ [LF] @ ''}''"
proof -
  let ?p = "cwd ev @ [''config.json'']"
  let ?text = "json_dump (config (pd @ [''NVIDIA Corporation'', ''Drs'']))"
  from assms(2-4) have ow: "open_write (denied ev) ?p ?text (fs w) = Inr (write_node ?p (File ?text) (fs w))"
    by (simp add: open_write_def)
  with assms(1) have r: "fst (make_json ev w) = Inr ()"
    and f: "fs (snd (make_json ev w)) = write_node ?p (File ?text) (fs w)"
    by (simp_all add: make_json_def profile_src_dir_def emit_def Let_def)
  from assms(2) have "lookup (write_node ?p (File ?text) (fs w)) (?p @ []) = lookup (File ?text) []"
    by (intro lookup_write_node_under) simp
  with f have l: "lookup (fs (snd (make_json ev w))) ?p = Some (File ?text)" by simp
  have c: "map fst (config (pd @ [''NVIDIA Corporation'', ''Drs''])) = [''src_dir'']"
    "map_of (config (pd @ [''NVIDIA Corporation'', ''Drs''])) ''src_dir''
      = Some (str_path (pd @ [''NVIDIA Corporation'', ''Drs'']))"
    by (simp_all add: config_def)
  from r c l json_dump_config [of "pd @ [''NVIDIA Corporation'', ''Drs'']"] show ?thesis
    by simp
qed

theorem make_json_writes_src_dir_witness:
  "programdata ex_env = Some [''C:'', ''ProgramData''] \<and>
   is_dir (fs ex_world) (cwd ex_env) \<and>
   \<not> is_dir (fs ex_world) (cwd ex_env @ [''config.json'']) \<and>
   \<not> denied ex_env (cwd ex_env @ [''config.json'']) \<and>
   fst (make_json ex_env ex_world) = Inr () \<and>
   lookup (fs (snd (make_json ex_env ex_world))) [''C:'', ''Users'', ''u'', ''config.json''] =
     Some (File (''{'' @ [LF] @ ''    '' @ [CHR 0x22] @ ''src_dir'' @ [CHR 0x22] @ '': '' @ [CHR 0x22]
       @ ''C:'' @ [backslash, backslash] @ ''ProgramData'' @ [backslash, backslash]
       @ ''NVIDIA Corporation'' @ [backslash, backslash] @ ''Drs'' @ [CHR 0x22] @ [LF] @ ''}''))"
proof -
  have a: "programdata ex_env = Some [''C:'', ''ProgramData'']"
    and b: "is_dir (fs ex_world) (cwd ex_env)"
    and c: "\<not> is_dir (fs ex_world) (cwd ex_env @ [''config.json''])"
    and d: "\<not> denied ex_env (cwd ex_env @ [''config.json''])"
    and e: "cwd ex_env = [''C:'', ''Users'', ''u'']"
    by (simp_all add: ex_env_def ex_world_def ex_tree_def is_dir_def)
  have j: "json_string (str_path ([''C:'', ''ProgramData''] @ [''NVIDIA Corporation'', ''Drs''])) =
     [CHR 0x22] @ ''C:'' @ [backslash, backslash] @ ''ProgramData'' @ [backslash, backslash]
       @ ''NVIDIA Corporation'' @ [backslash, backslash] @ ''Drs'' @ [CHR 0x22]"
    by (simp add: json_string_def json_escape_def backslash_def)
  from make_json_writes_src_dir [OF a b c d] a b c d e j show ?thesis
    by simp
qed

subsection \<open>Copying the profile files\<close>
























subsection \<open>The order of the steps and the end of a run\<close>






















end
